theory Spec2Isabelle
  imports Main
begin

text \<open>
  A model of \<^verbatim>\<open>kittenreaper.py\<close>: the reboot procedure for one host
  (\<open>checkKitten\<close>), the worker loop (\<open>processKittens\<close>), the cache of hosts seen in
  the last hour (\<open>loadCache\<close>, \<open>writeCache\<close>) and the loop of the main program that
  chooses the hosts to hand to the workers. Exceptions are values of a sum type,
  dictionaries are maps, the remote host and the clock are parameters.
\<close>

section \<open>Strings\<close>

text \<open>
  Python byte strings are modelled as \<open>string\<close>. \<open>starts_with p s\<close> is
  \<^verbatim>\<open>s.startswith(p)\<close> and \<open>str_in p s\<close> is the substring test \<^verbatim>\<open>p in s\<close>.
\<close>

fun starts_with :: "string \<Rightarrow> string \<Rightarrow> bool" where
  "starts_with [] s = True"
| "starts_with (p # ps) [] = False"
| "starts_with (p # ps) (c # cs) = (p = c \<and> starts_with ps cs)"

fun str_in :: "string \<Rightarrow> string \<Rightarrow> bool" where
  "str_in p [] = (p = [])"
| "str_in p (c # cs) = (starts_with p (c # cs) \<or> str_in p cs)"

definition is_digit :: "char \<Rightarrow> bool" where
  "is_digit c = (c \<in> set ''0123456789'')"

definition newline :: char where
  "newline = CHR 0x0A"

section \<open>Options\<close>

text \<open>
  The option object built from \<^verbatim>\<open>_defaultOptions\<close>: one field per key. \<^verbatim>\<open>None\<close>
  defaults are options; \<^verbatim>\<open>filter\<close> and \<^verbatim>\<open>class\<close> are renamed because the words
  are taken.
\<close>

record options =
  config :: "string option"
  debug :: bool
  background :: bool
  logpath :: "string option"
  kittens :: "string option"
  filter_opt :: "string option"
  class_opt :: "string option"
  workers :: int
  dryrun :: bool
  filterbase :: string
  username :: string
  password :: "string option"
  cachefile :: "string option"
  force :: bool

definition defaultOptions :: options where
  "defaultOptions =
     \<lparr> config = None, debug = True, background = False, logpath = None,
       kittens = None, filter_opt = None, class_opt = None, workers = 4,
       dryrun = False, filterbase = ''^%s'', username = ''cltbld'',
       password = None, cachefile = None, force = False \<rparr>"

section \<open>The remote slave and the reboot procedure\<close>

text \<open>
  \<^verbatim>\<open>releng.remote\<close> is not part of the source at hand; \<open>checkKitten\<close> uses it only
  through the calls below, so the remote side is a parameter. Every call that the
  procedure makes on the host is recorded in a trace, in order, and what a call
  answers may depend on everything done to the host so far (the trace at the time of
  the call). The calls are taken to return, as the interface promises: an exception
  or a call that blocks forever inside the remote library is outside this model.
\<close>

datatype rop =
    Connect string string "string option"
  | Reboot
  | Wait
  | FindTacfiles
  | TailLog nat
  | GracefulShutdown
  | Sleep nat

record remote =
  slave_found :: "string \<Rightarrow> string \<Rightarrow> string option \<Rightarrow> bool"
  find_buildbot_tacfiles :: "rop list \<Rightarrow> string list"
  tail_twistd_log :: "rop list \<Rightarrow> nat \<Rightarrow> string"
  graceful_shutdown :: "rop list \<Rightarrow> bool"

text \<open>
  \<open>checkKitten\<close> returns \<^verbatim>\<open>None\<close> on every path; the model returns the place where
  it returned, to tell the paths apart.
\<close>

datatype outcome =
    DryRun
  | NoSlave
  | DisabledByBug string
  | NoBuildbotTac
  | RebootedNotConnected
  | ShutdownFailed
  | GaveUp
  | Rebooted

text \<open>
  \<^verbatim>\<open>re.match("^buildbot.tac.bug(\d+)$", tac)\<close>: a dot is any character but a
  newline, the digits are greedy, and \<^verbatim>\<open>$\<close> also matches before one final
  newline. The result is the group, when the match succeeds.
\<close>

definition match_bug :: "string \<Rightarrow> string option" where
  "match_bug tac =
     (if starts_with ''buildbot'' tac \<and> length tac \<ge> 16
         \<and> tac ! 8 \<noteq> newline \<and> take 3 (drop 9 tac) = ''tac''
         \<and> tac ! 12 \<noteq> newline \<and> take 3 (drop 13 tac) = ''bug''
      then (let ds = takeWhile is_digit (drop 16 tac);
                rest = dropWhile is_digit (drop 16 tac)
            in if ds \<noteq> [] \<and> (rest = [] \<or> rest = [newline]) then Some ds else None)
      else None)"

fun first_bug :: "string list \<Rightarrow> string option" where
  "first_bug [] = None"
| "first_bug (tac # tacs) =
     (case match_bug tac of Some n \<Rightarrow> Some n | None \<Rightarrow> first_bug tacs)"

text \<open>
  The \<^verbatim>\<open>while True\<close> loop that waits for the shutdown. The loop state is the
  counter and the trace; the result also gives the counter at the \<^verbatim>\<open>break\<close>.
\<close>

function poll_shutdown :: "remote \<Rightarrow> nat \<Rightarrow> rop list \<Rightarrow> rop list \<times> outcome \<times> nat" where
  "poll_shutdown r count tr =
     (if count + 1 \<ge> 30 then (tr @ [TailLog 10], GaveUp, count + 1)
      else if tail_twistd_log r tr 5 = []
              \<or> str_in ''Main loop terminated'' (tail_twistd_log r tr 5)
              \<or> str_in ''ProcessExitedAlready'' (tail_twistd_log r tr 5)
           then (tr @ [TailLog 5, Reboot], Rebooted, count + 1)
           else poll_shutdown r (count + 1) (tr @ [TailLog 5, Sleep 5]))"
  by pat_completeness auto
termination
  by (relation "measure (\<lambda>(r, count, tr). 30 - count)") auto

declare poll_shutdown.simps [simp del]

definition checkKitten :: "remote \<Rightarrow> string \<Rightarrow> options \<Rightarrow> rop list \<times> outcome" where
  "checkKitten r hostname opts =
     (if dryrun opts then ([], DryRun)
      else
        let tr0 = [Connect hostname (username opts) (password opts)] in
        if \<not> slave_found r hostname (username opts) (password opts) then (tr0, NoSlave)
        else
          let tr1 = tr0 @ [if str_in ''tegra'' hostname then Reboot else Wait];
              tacfiles = find_buildbot_tacfiles r tr1;
              tr2 = tr1 @ [FindTacfiles]
          in if ''buildbot.tac'' \<notin> set tacfiles
             then (case first_bug tacfiles of
                     Some n \<Rightarrow> (tr2, DisabledByBug n)
                   | None \<Rightarrow> (tr2, NoBuildbotTac))
             else
               let data = tail_twistd_log r tr2 10;
                   tr3 = tr2 @ [TailLog 10]
               in if str_in ''Stopping factory'' data
                  then (tr3 @ [Reboot], RebootedNotConnected)
                  else if \<not> graceful_shutdown r tr3
                       then (tr3 @ [GracefulShutdown], ShutdownFailed)
                       else (case poll_shutdown r 0 (tr3 @ [GracefulShutdown]) of
                               (tr, out, n) \<Rightarrow> (tr, out)))"

text \<open>
  One pass through the body of the worker's \<^verbatim>\<open>while True\<close> loop. The state is
  the work queue, the result queue and the traces of the hosts handled so far.
  \<^verbatim>\<open>jobs.get(False)\<close> on an empty queue raises \<^verbatim>\<open>Empty\<close>, which the loop
  catches: nothing happens in that pass.
\<close>

record worker_state =
  jobs :: "string list"
  results :: "string list"
  traces :: "(string \<times> rop list \<times> outcome) list"

definition processKittens_pass :: "options \<Rightarrow> remote \<Rightarrow> worker_state \<Rightarrow> worker_state" where
  "processKittens_pass opts r s =
     (case jobs s of
        [] \<Rightarrow> s
      | job # rest \<Rightarrow>
          s\<lparr> jobs := rest,
             traces := traces s @ [(job, checkKitten r job opts)],
             results := results s @ [job] \<rparr>)"

text \<open>The worker never leaves its loop; \<open>processKittens n\<close> is its first \<open>n\<close> passes.\<close>

fun processKittens :: "nat \<Rightarrow> options \<Rightarrow> remote \<Rightarrow> worker_state \<Rightarrow> worker_state" where
  "processKittens 0 opts r s = s"
| "processKittens (Suc n) opts r s = processKittens n opts r (processKittens_pass opts r s)"


section \<open>The candidate filter of the main program\<close>

datatype py_error = KeyError string | ValueError

text \<open>\<^verbatim>\<open>s.split(sep)\<close> for a separator of one character.\<close>

fun split_on :: "char \<Rightarrow> string \<Rightarrow> string list" where
  "split_on sep [] = [[]]"
| "split_on sep (c # cs) =
     (if c = sep then [] # split_on sep cs
      else (case split_on sep cs of
              [] \<Rightarrow> [[c]]
            | w # ws \<Rightarrow> (c # w) # ws))"

text \<open>\<^verbatim>\<open>s.strip()\<close>: the white space of a byte string is removed at both ends.\<close>

definition is_space :: "char \<Rightarrow> bool" where
  "is_space c = (c \<in> {CHR '' '', CHR 0x09, CHR 0x0A, CHR 0x0B, CHR 0x0C, CHR 0x0D})"

definition strip :: "string \<Rightarrow> string" where
  "strip s = rev (dropWhile is_space (rev (dropWhile is_space s)))"

text \<open>
  The slavealloc list. An item of the list has a name, the enabled flag and notes
  that may be \<^verbatim>\<open>null\<close>; the dictionary \<^verbatim>\<open>slaves\<close> is keyed by name, a later item
  replaces an earlier one of the same name, and \<^verbatim>\<open>null\<close> notes become the empty
  string.
\<close>

record slave_item =
  name :: string
  enabled :: bool
  notes_json :: "string option"

record slave =
  slave_enabled :: bool
  slave_notes :: string

fun build_slaves :: "slave_item list \<Rightarrow> (string \<rightharpoonup> slave) \<Rightarrow> (string \<rightharpoonup> slave)" where
  "build_slaves [] slaves = slaves"
| "build_slaves (item # slavelist) slaves =
     build_slaves slavelist
       (slaves(name item \<mapsto>
          \<lparr> slave_enabled = enabled item,
            slave_notes = (case notes_json item of None \<Rightarrow> [] | Some n \<Rightarrow> n) \<rparr>))"

text \<open>
  \<^verbatim>\<open>reFilter\<close> is \<^verbatim>\<open>re.compile(options.filterbase % options.filter)\<close> when a
  filter is given. The regular expression library and the \<^verbatim>\<open>%\<close> of strings are
  parameters: \<open>re_search p s\<close> says whether the pattern \<open>p\<close> is found in \<open>s\<close>.
\<close>

definition make_reFilter ::
  "(string \<Rightarrow> string \<Rightarrow> bool) \<Rightarrow> (string \<Rightarrow> string \<Rightarrow> string) \<Rightarrow> options
     \<Rightarrow> (string \<Rightarrow> bool) option" where
  "make_reFilter re_search percent opts =
     (case filter_opt opts of
        None \<Rightarrow> None
      | Some f \<Rightarrow> Some (re_search (percent (filterbase opts) f)))"

text \<open>
  The \<^verbatim>\<open>try\<close> block of the loop. \<open>None\<close> is \<^verbatim>\<open>kitten = None\<close>, whether set by
  the filter or by the \<^verbatim>\<open>except\<close> clause.
\<close>

definition extract_kitten :: "string \<Rightarrow> string option" where
  "extract_kitten item =
     (if CHR '','' \<in> set item
      then (case split_on CHR '','' item of [] \<Rightarrow> None | k # ks \<Rightarrow> Some k)
      else Some item)"

definition parse_item :: "(string \<Rightarrow> bool) option \<Rightarrow> string \<Rightarrow> string option" where
  "parse_item reFilter item =
     (case extract_kitten item of
        None \<Rightarrow> None
      | Some kitten \<Rightarrow>
          (case reFilter of
             None \<Rightarrow> Some kitten
           | Some search \<Rightarrow> if \<not> search kitten then None else Some kitten))"

text \<open>
  The rest of the loop body. \<open>Inr (Some kitten)\<close> is the kitten put on the work
  queue (and appended to \<^verbatim>\<open>results\<close>), \<open>Inr None\<close> a line that is skipped, and
  \<open>Inl\<close> the \<^verbatim>\<open>KeyError\<close> of \<^verbatim>\<open>slaves[kitten]\<close>, which nothing catches.
\<close>

definition filter_item ::
  "options \<Rightarrow> (string \<Rightarrow> bool) option \<Rightarrow> (string \<rightharpoonup> slave) \<Rightarrow> (string \<rightharpoonup> 'ts) \<Rightarrow> string
     \<Rightarrow> py_error + string option" where
  "filter_item opts reFilter slaves seenCache item =
     (case parse_item reFilter item of
        None \<Rightarrow> Inr None
      | Some kitten \<Rightarrow>
          (case slaves kitten of
             None \<Rightarrow> Inl (KeyError kitten)
           | Some rec \<Rightarrow>
               if \<not> slave_enabled rec then Inr None
               else if length (slave_notes rec) > 0 then Inr None
               else if seenCache kitten \<noteq> None
                    then (if force opts then Inr (Some kitten) else Inr None)
                    else Inr (Some kitten)))"

text \<open>
  The loop over the lines. The result is the work queue at the end of the loop, or
  at the line where the program stopped with an error.
\<close>

fun filter_loop ::
  "options \<Rightarrow> (string \<Rightarrow> bool) option \<Rightarrow> (string \<rightharpoonup> slave) \<Rightarrow> (string \<rightharpoonup> 'ts) \<Rightarrow> string list
     \<Rightarrow> string list \<Rightarrow> string list \<times> py_error option" where
  "filter_loop opts reFilter slaves seenCache [] queue = (queue, None)"
| "filter_loop opts reFilter slaves seenCache (item # items) queue =
     (case filter_item opts reFilter slaves seenCache item of
        Inl e \<Rightarrow> (queue, Some e)
      | Inr None \<Rightarrow> filter_loop opts reFilter slaves seenCache items queue
      | Inr (Some kitten) \<Rightarrow> filter_loop opts reFilter slaves seenCache items (queue @ [kitten]))"

text \<open>
  What the main program hands to the workers: \<^verbatim>\<open>range(1, options.workers)\<close>
  processes are started, and the lines that pass the filter are queued.
\<close>

definition spawned_workers :: "options \<Rightarrow> nat" where
  "spawned_workers opts = length [1 ..< nat (workers opts)]"

definition main_dispatch ::
  "(string \<Rightarrow> string \<Rightarrow> bool) \<Rightarrow> (string \<Rightarrow> string \<Rightarrow> string) \<Rightarrow> options \<Rightarrow> slave_item list
     \<Rightarrow> (string \<rightharpoonup> 'ts) \<Rightarrow> string list \<Rightarrow> nat \<times> string list \<times> py_error option" where
  "main_dispatch re_search percent opts slavelist seenCache items =
     (spawned_workers opts,
      filter_loop opts (make_reFilter re_search percent opts)
        (build_slaves slavelist Map.empty) seenCache items [])"

section \<open>Dates and times\<close>

text \<open>
  The \<^verbatim>\<open>datetime\<close> objects of the Python library, without a time zone: the fields
  of an object, and the range of the fields that the library guarantees for every
  object.
\<close>

record datetime =
  year :: nat
  month :: nat
  day :: nat
  hour :: nat
  minute :: nat
  second :: nat
  microsecond :: nat

definition is_leap :: "nat \<Rightarrow> bool" where
  "is_leap y = (y mod 4 = 0 \<and> (y mod 100 \<noteq> 0 \<or> y mod 400 = 0))"

definition days_in_month :: "nat \<Rightarrow> nat \<Rightarrow> nat" where
  "days_in_month y m =
     (if m = 2 then (if is_leap y then 29 else 28)
      else if m = 4 \<or> m = 6 \<or> m = 9 \<or> m = 11 then 30 else 31)"

definition valid_datetime :: "datetime \<Rightarrow> bool" where
  "valid_datetime dt =
     (1 \<le> year dt \<and> year dt \<le> 9999 \<and> 1 \<le> month dt \<and> month dt \<le> 12
      \<and> 1 \<le> day dt \<and> day dt \<le> days_in_month (year dt) (month dt)
      \<and> hour dt < 24 \<and> minute dt < 60 \<and> second dt < 60 \<and> microsecond dt < 1000000)"

text \<open>
  The day number of a date (\<^verbatim>\<open>toordinal\<close>): 1 for the first of January of year 1.
\<close>

definition days_before_year :: "nat \<Rightarrow> int" where
  "days_before_year y =
     (let y' = int y - 1 in y' * 365 + y' div 4 - y' div 100 + y' div 400)"

definition days_before_month :: "nat \<Rightarrow> nat \<Rightarrow> int" where
  "days_before_month y m = int (sum_list (map (days_in_month y) [1 ..< m]))"

definition toordinal :: "datetime \<Rightarrow> int" where
  "toordinal dt =
     days_before_year (year dt) + days_before_month (year dt) (month dt) + int (day dt)"

text \<open>
  The difference of two \<^verbatim>\<open>datetime\<close> objects is a \<^verbatim>\<open>timedelta\<close>, built from the
  difference of the day numbers, of the seconds of the day and of the microseconds,
  and normalised so that the seconds are in 0..86399 and the microseconds in
  0..999999; only the days can be negative.
\<close>

record timedelta =
  days :: int
  seconds :: int
  microseconds :: int

definition timedelta_new :: "int \<Rightarrow> int \<Rightarrow> int \<Rightarrow> timedelta" where
  "timedelta_new d s us =
     (let s' = s + us div 1000000 in
      \<lparr> days = d + s' div 86400, seconds = s' mod 86400, microseconds = us mod 1000000 \<rparr>)"

definition datetime_sub :: "datetime \<Rightarrow> datetime \<Rightarrow> timedelta" where
  "datetime_sub a b =
     timedelta_new (toordinal a - toordinal b)
       ((int (second a) + int (minute a) * 60 + int (hour a) * 3600)
          - (int (second b) + int (minute b) * 60 + int (hour b) * 3600))
       (int (microsecond a) - int (microsecond b))"

text \<open>
  \<^verbatim>\<open>ts.strftime('%Y-%m-%dT%H:%M:%S')\<close>. The program is Python 2, where
  \<^verbatim>\<open>strftime\<close> raises \<^verbatim>\<open>ValueError\<close> for a year before 1900.
\<close>

definition digit_char :: "nat \<Rightarrow> char" where
  "digit_char d = ''0123456789'' ! d"

definition pad2 :: "nat \<Rightarrow> string" where
  "pad2 n = [digit_char (n div 10 mod 10), digit_char (n mod 10)]"

definition pad4 :: "nat \<Rightarrow> string" where
  "pad4 n = [digit_char (n div 1000 mod 10), digit_char (n div 100 mod 10),
             digit_char (n div 10 mod 10), digit_char (n mod 10)]"

definition isoformat :: "datetime \<Rightarrow> string" where
  "isoformat dt =
     pad4 (year dt) @ ''-'' @ pad2 (month dt) @ ''-'' @ pad2 (day dt) @ ''T''
       @ pad2 (hour dt) @ '':'' @ pad2 (minute dt) @ '':'' @ pad2 (second dt)"


text \<open>
  \<^verbatim>\<open>datetime.strptime(s, '%Y-%m-%dT%H:%M:%S')\<close>. The library turns the format
  into a regular expression, matched without regard to case: four digits for the
  year; one or two digits for the month (1..12), the day (1..31, or a space and one
  digit), the hour (0..23), the minute (0..59) and the second (0..61); the whole
  string must be used up. A year 0, a day that the month does not have and a second
  above 59 are rejected afterwards, when the object is built. Every failure is a
  \<^verbatim>\<open>ValueError\<close>.
\<close>

definition digit_val :: "char \<Rightarrow> nat" where
  "digit_val c = of_char c - 48"

definition num_of :: "string \<Rightarrow> nat" where
  "num_of ds = foldl (\<lambda>a c. 10 * a + digit_val c) 0 ds"

definition number :: "nat \<Rightarrow> nat \<Rightarrow> string \<Rightarrow> nat option" where
  "number lo hi ds =
     (if (length ds = 1 \<or> length ds = 2) \<and> list_all is_digit ds
          \<and> lo \<le> num_of ds \<and> num_of ds \<le> hi
      then Some (num_of ds) else None)"

definition expect :: "string \<Rightarrow> string \<Rightarrow> string option" where
  "expect cs s = (case s of [] \<Rightarrow> None | c # rest \<Rightarrow> if c \<in> set cs then Some rest else None)"

definition day_field :: "string \<Rightarrow> (nat \<times> string) option" where
  "day_field s =
     (if take 1 s = '' ''
      then (case drop 1 s of
              [] \<Rightarrow> None
            | d # rest \<Rightarrow>
                if is_digit d \<and> d \<noteq> CHR ''0'' then Some (digit_val d, rest) else None)
      else map_option (\<lambda>n. (n, dropWhile is_digit s)) (number 1 31 (takeWhile is_digit s)))"

definition strptime_fields :: "string \<Rightarrow> (nat \<times> nat \<times> nat \<times> nat \<times> nat \<times> nat) option" where
  "strptime_fields s =
     (if length (take 4 s) = 4 \<and> list_all is_digit (take 4 s) then
        Option.bind (expect ''-'' (drop 4 s)) (\<lambda>r1.
        Option.bind (number 1 12 (takeWhile is_digit r1)) (\<lambda>m.
        Option.bind (expect ''-'' (dropWhile is_digit r1)) (\<lambda>r2.
        Option.bind (day_field r2) (\<lambda>(d, r3).
        Option.bind (expect ''Tt'' r3) (\<lambda>r4.
        Option.bind (number 0 23 (takeWhile is_digit r4)) (\<lambda>H.
        Option.bind (expect '':'' (dropWhile is_digit r4)) (\<lambda>r5.
        Option.bind (number 0 59 (takeWhile is_digit r5)) (\<lambda>M.
        Option.bind (expect '':'' (dropWhile is_digit r5)) (\<lambda>r6.
        Option.bind (number 0 61 r6) (\<lambda>S.
          Some (num_of (take 4 s), m, d, H, M, S)))))))))))
      else None)"

definition strptime :: "string \<Rightarrow> py_error + datetime" where
  "strptime s =
     (case strptime_fields s of
        None \<Rightarrow> Inl ValueError
      | Some (y, m, d, H, M, S) \<Rightarrow>
          if y < 1 \<or> days_in_month y m < d \<or> 59 < S then Inl ValueError
          else Inr \<lparr> year = y, month = m, day = d, hour = H, minute = M, second = S,
                     microsecond = 0 \<rparr>)"

section \<open>The cache of kittens seen\<close>


text \<open>
  The body of the loop of \<open>loadCache\<close> for one line, with the value that
  \<^verbatim>\<open>datetime.now()\<close> has in this pass. A line that does not split in two at its
  spaces, or whose second part is not a time stamp, raises \<^verbatim>\<open>ValueError\<close>.
\<close>

definition loadCache_item ::
  "datetime \<Rightarrow> string \<Rightarrow> (string \<rightharpoonup> datetime) \<Rightarrow> py_error + (string \<rightharpoonup> datetime)" where
  "loadCache_item now item result =
     (case split_on CHR '' '' item of
        [kitten, s] \<Rightarrow>
          (case strptime (strip s) of
             Inl e \<Rightarrow> Inl e
           | Inr ts \<Rightarrow>
               let elapsed = datetime_sub now ts;
                   secs = days elapsed * 86400 + seconds elapsed
               in if secs \<le> 3600 then Inr (result(kitten \<mapsto> ts)) else Inr result)
      | _ \<Rightarrow> Inl ValueError)"





text \<open>
  The time between two \<^verbatim>\<open>datetime\<close> objects in microseconds, and the line of
  the cache file for a kitten and its time stamp.
\<close>

definition to_us :: "datetime \<Rightarrow> int" where
  "to_us dt =
     ((toordinal dt * 86400 + int (hour dt) * 3600 + int (minute dt) * 60 + int (second dt))
        * 1000000 + int (microsecond dt))"

definition elapsed_us :: "datetime \<Rightarrow> datetime \<Rightarrow> int" where
  "elapsed_us now ts = to_us now - to_us ts"

definition cache_line :: "string \<Rightarrow> datetime \<Rightarrow> string" where
  "cache_line kitten ts = kitten @ '' '' @ isoformat ts @ [newline]"

section \<open>Fixtures\<close>


definition never_quiet :: remote where
  "never_quiet =
     \<lparr> slave_found = (\<lambda>h u p. True),
       find_buildbot_tacfiles = (\<lambda>tr. [''buildbot.tac'']),
       tail_twistd_log = (\<lambda>tr n. ''busy''),
       graceful_shutdown = (\<lambda>tr. True) \<rparr>"

definition not_connected :: remote where
  "not_connected =
     \<lparr> slave_found = (\<lambda>h u p. True),
       find_buildbot_tacfiles = (\<lambda>tr. [''buildbot.tac'']),
       tail_twistd_log = (\<lambda>tr n. ''2012-03-01 Stopping factory <BotFactory>''),
       graceful_shutdown = (\<lambda>tr. True) \<rparr>"

text \<open>
  An inventory with an enabled host \<open>a\<close>, a disabled host \<open>b\<close> and an enabled host
  \<open>c\<close> with a note, and a cache that has seen \<open>a\<close>.
\<close>

definition inventory :: "string \<rightharpoonup> slave" where
  "inventory =
     [''a'' \<mapsto> \<lparr> slave_enabled = True, slave_notes = [] \<rparr>,
      ''b'' \<mapsto> \<lparr> slave_enabled = False, slave_notes = [] \<rparr>,
      ''c'' \<mapsto> \<lparr> slave_enabled = True, slave_notes = ''bug 1234'' \<rparr>]"

definition seen_a :: "string \<rightharpoonup> nat" where
  "seen_a = [''a'' \<mapsto> 0]"

text \<open>
  A time stamp, and a reading of the clock 3600.5 seconds after it.
\<close>

definition noon :: datetime where
  "noon = \<lparr> year = 2012, month = 3, day = 1, hour = 12, minute = 0, second = 0,
             microsecond = 0 \<rparr>"

definition half_past :: datetime where
  "half_past = \<lparr> year = 2012, month = 3, day = 1, hour = 13, minute = 0, second = 0,
                  microsecond = 500000 \<rparr>"


section \<open>The shutdown poll\<close>

text \<open>
  \<open>shutdown_seen\<close> is the test the loop makes on the five log lines, and
  \<open>polled tr k\<close> is the trace after \<open>k\<close> polls that did not pass it.
\<close>

definition shutdown_seen :: "string \<Rightarrow> bool" where
  "shutdown_seen data =
     (data = [] \<or> str_in ''Main loop terminated'' data \<or> str_in ''ProcessExitedAlready'' data)"







section \<open>The worker\<close>

lemma checkKitten_dryrun: "dryrun opts \<Longrightarrow> checkKitten r hostname opts = ([], DryRun)"
  by (simp add: checkKitten_def)

lemma processKittens_all:
  "results (processKittens (length (jobs s)) opts r s) = results s @ jobs s
   \<and> jobs (processKittens (length (jobs s)) opts r s) = []"
proof (induction "jobs s" arbitrary: s)
  case Nil
  then show ?case by simp
next
  case (Cons job rest)
  from Cons(2) have len: "length (jobs s) = Suc (length rest)"
    by (metis length_Cons)
  have p: "jobs (processKittens_pass opts r s) = rest"
          "results (processKittens_pass opts r s) = results s @ [job]"
    using Cons(2) [symmetric] by (simp_all add: processKittens_pass_def)
  from Cons(1) [of "processKittens_pass opts r s"] p Cons(2) [symmetric] show ?case
    by (simp add: len)
qed

text \<open>
  C7. A pass of the worker that finds a job on the work queue takes it off, runs
  \<open>checkKitten\<close> on it, and puts the job on the result queue once, whatever the
  outcome of \<open>checkKitten\<close> was: the result queue grows by exactly this job. In a
  dry run \<open>checkKitten\<close> does nothing on the host.
\<close>

theorem processKittens_reports_job:
  "jobs s = job # rest \<Longrightarrow>
     jobs (processKittens_pass opts r s) = rest \<and>
     results (processKittens_pass opts r s) = results s @ [job] \<and>
     count_list (results (processKittens_pass opts r s)) job = Suc (count_list (results s) job) \<and>
     traces (processKittens_pass opts r s) = traces s @ [(job, checkKitten r job opts)] \<and>
     (dryrun opts \<longrightarrow> checkKitten r job opts = ([], DryRun))"
  by (simp add: processKittens_pass_def checkKitten_dryrun)

theorem processKittens_reports_job_witness:
  "jobs \<lparr> jobs = [''a'', ''b''], results = [], traces = [] \<rparr> = ''a'' # [''b'']
   \<and> results (processKittens_pass (defaultOptions\<lparr>dryrun := True\<rparr>) never_quiet
              \<lparr> jobs = [''a'', ''b''], results = [], traces = [] \<rparr>) = [''a'']
   \<and> dryrun (defaultOptions\<lparr>dryrun := True\<rparr>)
   \<and> checkKitten never_quiet ''a'' (defaultOptions\<lparr>dryrun := True\<rparr>) = ([], DryRun)
   \<and> results (processKittens_pass defaultOptions not_connected
              \<lparr> jobs = [''a'', ''b''], results = [], traces = [] \<rparr>) = [''a'']
   \<and> snd (checkKitten not_connected ''a'' defaultOptions) = RebootedNotConnected"
  using processKittens_reports_job [of "\<lparr> jobs = [''a'', ''b''], results = [], traces = [] \<rparr>"
          "''a''" "[''b'']" "defaultOptions\<lparr>dryrun := True\<rparr>" never_quiet]
        processKittens_reports_job [of "\<lparr> jobs = [''a'', ''b''], results = [], traces = [] \<rparr>"
          "''a''" "[''b'']" defaultOptions not_connected]
  by (simp add: defaultOptions_def checkKitten_def not_connected_def)

section \<open>Hosts with tegra in the name\<close>

text \<open>
  After the reboot of a tegra the procedure goes on to the tac files like for any
  other host: the branch has no \<^verbatim>\<open>return\<close>.
\<close>

lemma poll_shutdown_extends: "\<exists>ext. fst (poll_shutdown r c tr) = tr @ ext"
proof (induction r c tr rule: poll_shutdown.induct)
  case (1 r count tr)
  show ?case
  proof (cases "count + 1 \<ge> 30 \<or> shutdown_seen (tail_twistd_log r tr 5)")
    case True
    then show ?thesis
      by (auto simp add: poll_shutdown.simps [of r count tr] shutdown_seen_def)
  next
    case False
    then have "poll_shutdown r count tr = poll_shutdown r (count + 1) (tr @ [TailLog 5, Sleep 5])"
      by (simp add: poll_shutdown.simps [of r count tr] shutdown_seen_def)
    moreover from 1 False
    obtain ext where "fst (poll_shutdown r (count + 1) (tr @ [TailLog 5, Sleep 5]))
        = (tr @ [TailLog 5, Sleep 5]) @ ext"
      by (auto simp add: shutdown_seen_def)
    ultimately show ?thesis by simp
  qed
qed

lemma checkKitten_tegra_goes_on:
  assumes "\<not> dryrun opts" and "slave_found r hostname (username opts) (password opts)"
    and "str_in ''tegra'' hostname"
  shows "take 3 (fst (checkKitten r hostname opts)) =
     [Connect hostname (username opts) (password opts), Reboot, FindTacfiles]"
proof -
  let ?tr = "[Connect hostname (username opts) (password opts), Reboot, FindTacfiles,
              TailLog 10, GracefulShutdown]"
  obtain ext where "fst (poll_shutdown r 0 ?tr) = ?tr @ ext"
    using poll_shutdown_extends by blast
  then have "take 3 (fst (poll_shutdown r 0 ?tr)) = take 3 ?tr"
    by simp
  with assms show ?thesis
    by (auto simp add: checkKitten_def Let_def split: option.splits prod.splits)
qed

text \<open>
  C1. The run of \<open>checkKitten\<close> on the host \<open>tegra-050\<close>, whose log shows that the
  slave is not connected: the host is rebooted at once, without a wait, and then its
  tac files are listed, its log is read and it is rebooted a second time.
\<close>

theorem checkKitten_tegra_run:
  "checkKitten not_connected ''tegra-050'' defaultOptions =
     ([Connect ''tegra-050'' ''cltbld'' None, Reboot, FindTacfiles, TailLog 10, Reboot],
      RebootedNotConnected)"
  by (simp add: checkKitten_def not_connected_def defaultOptions_def)


section \<open>Properties of the candidate filter\<close>

lemma split_on_hd: "\<exists>ws. split_on sep s = takeWhile (\<lambda>c. c \<noteq> sep) s # ws"
  by (induction s) (auto split: list.splits)

lemma filter_loop_queue:
  "k \<in> set (fst (filter_loop opts reFilter slaves seenCache items queue)) \<Longrightarrow>
   k \<in> set queue \<or> (\<exists>rec. slaves k = Some rec \<and> slave_enabled rec \<and> slave_notes rec = [])"
proof (induction items arbitrary: queue)
  case Nil
  then show ?case by simp
next
  case (Cons item items)
  show ?case
  proof (cases "filter_item opts reFilter slaves seenCache item")
    case (Inl e)
    with Cons.prems show ?thesis by simp
  next
    case (Inr res)
    show ?thesis
    proof (cases res)
      case None
      with Inr Cons show ?thesis by simp
    next
      case (Some kitten)
      with Inr Cons.prems
      have "k \<in> set (fst (filter_loop opts reFilter slaves seenCache items (queue @ [kitten])))"
        by simp
      from Cons.IH [OF this] have "k \<in> set queue \<or> k = kitten
          \<or> (\<exists>rec. slaves k = Some rec \<and> slave_enabled rec \<and> slave_notes rec = [])"
        by auto
      moreover from Inr Some
      have "\<exists>rec. slaves kitten = Some rec \<and> slave_enabled rec \<and> slave_notes rec = []"
        by (auto simp add: filter_item_def split: option.splits if_splits)
      ultimately show ?thesis by blast
    qed
  qed
qed

text \<open>
  C2. A kitten whose record in \<^verbatim>\<open>slaves\<close> is not enabled, or has notes that are not
  empty, is not on the work queue after the loop, for any lines, any filter, any
  cache and any options (so with or without \<^verbatim>\<open>--force\<close>), also when the loop was
  stopped by an error.
\<close>

theorem disabled_or_noted_never_enqueued:
  "slaves k = Some rec \<Longrightarrow> \<not> slave_enabled rec \<or> slave_notes rec \<noteq> [] \<Longrightarrow>
   k \<notin> set (fst (filter_loop opts reFilter slaves seenCache items []))"
  using filter_loop_queue [of k opts reFilter slaves seenCache items "[]"] by auto



theorem disabled_or_noted_never_enqueued_witness:
  "inventory ''b'' = Some \<lparr> slave_enabled = False, slave_notes = [] \<rparr>
   \<and> \<not> slave_enabled \<lparr> slave_enabled = False, slave_notes = [] \<rparr>
   \<and> ''b'' \<notin> set (fst (filter_loop (defaultOptions\<lparr>force := True\<rparr>) None inventory seen_a
                        [''a,Yes'', ''b,Yes'', ''c''] []))
   \<and> filter_loop (defaultOptions\<lparr>force := True\<rparr>) None inventory seen_a
        [''a,Yes'', ''b,Yes'', ''c''] [] = ([''a''], None)"
  using disabled_or_noted_never_enqueued [where slaves = inventory and k = "''b''"
          and rec = "\<lparr> slave_enabled = False, slave_notes = [] \<rparr>"
          and opts = "defaultOptions\<lparr>force := True\<rparr>" and reFilter = None
          and seenCache = seen_a and items = "[''a,Yes'', ''b,Yes'', ''c'']"]
  by (simp add: inventory_def seen_a_def defaultOptions_def filter_item_def parse_item_def
        extract_kitten_def)

text \<open>
  C5. A line that passes the filter, whose kitten is enabled, has empty notes and is
  in the cache: without \<^verbatim>\<open>--force\<close> it is skipped and the loop goes on with the
  queue as it was; with \<^verbatim>\<open>--force\<close> the kitten is queued.
\<close>

theorem seen_kitten_needs_force:
  "parse_item reFilter item = Some kitten \<Longrightarrow> slaves kitten = Some rec \<Longrightarrow>
   slave_enabled rec \<Longrightarrow> slave_notes rec = [] \<Longrightarrow> seenCache kitten = Some ts \<Longrightarrow>
   filter_item opts reFilter slaves seenCache item = Inr (if force opts then Some kitten else None) \<and>
   filter_loop opts reFilter slaves seenCache (item # items) queue =
     filter_loop opts reFilter slaves seenCache items (if force opts then queue @ [kitten] else queue)"
  by (simp add: filter_item_def)

theorem seen_kitten_needs_force_witness:
  "parse_item None ''a,Yes'' = Some ''a''
   \<and> inventory ''a'' = Some \<lparr> slave_enabled = True, slave_notes = [] \<rparr>
   \<and> seen_a ''a'' = Some 0
   \<and> filter_loop defaultOptions None inventory seen_a [''a,Yes''] [] = ([], None)
   \<and> filter_loop (defaultOptions\<lparr>force := True\<rparr>) None inventory seen_a [''a,Yes''] []
       = ([''a''], None)"
  using seen_kitten_needs_force [where reFilter = None and item = "''a,Yes''" and kitten = "''a''"
          and slaves = inventory and rec = "\<lparr> slave_enabled = True, slave_notes = [] \<rparr>"
          and seenCache = seen_a and ts = 0 and opts = defaultOptions and items = "[]"
          and queue = "[]"]
        seen_kitten_needs_force [where reFilter = None and item = "''a,Yes''" and kitten = "''a''"
          and slaves = inventory and rec = "\<lparr> slave_enabled = True, slave_notes = [] \<rparr>"
          and seenCache = seen_a and ts = 0 and opts = "defaultOptions\<lparr>force := True\<rparr>"
          and items = "[]" and queue = "[]"]
  by (simp add: inventory_def seen_a_def defaultOptions_def parse_item_def extract_kitten_def)

text \<open>
  C6, as the code has it. The kitten of a line is the text before the first comma
  when the line has a comma, and the whole line, as it is, when it has none; the
  kitten of \<open>foo,Yes\<close> is \<open>foo\<close>.
\<close>

theorem extract_kitten_whole_line:
  "extract_kitten item =
     Some (if CHR '','' \<in> set item then takeWhile (\<lambda>c. c \<noteq> CHR '','') item else item)
   \<and> extract_kitten ''foo,Yes'' = Some ''foo''"
  using split_on_hd [of "CHR '',''" item] by (auto simp add: extract_kitten_def)

theorem extract_kitten_whole_line_witness:
  "extract_kitten (''talos-r4-snow-078'' @ [newline]) = Some (''talos-r4-snow-078'' @ [newline])
   \<and> extract_kitten ''tegra-050,No'' = Some ''tegra-050''"
  using extract_kitten_whole_line [of "''talos-r4-snow-078'' @ [newline]"]
        extract_kitten_whole_line [of "''tegra-050,No''"]
  by (simp add: newline_def)

text \<open>
  C6, as the claim has it, fails for a line without a comma that ends in a newline,
  as the lines of a file do: the kitten keeps the newline, the trimmed line does not.
\<close>

theorem extract_kitten_not_trimmed:
  "extract_kitten (''foo'' @ [newline]) = Some (''foo'' @ [newline])
   \<and> strip (''foo'' @ [newline]) = ''foo''
   \<and> extract_kitten (''foo'' @ [newline]) \<noteq> Some (strip (''foo'' @ [newline]))"
  by (simp add: extract_kitten_def strip_def is_space_def newline_def)

text \<open>
  C8. A line that passes the filter and whose kitten is not a key of \<^verbatim>\<open>slaves\<close>
  raises \<^verbatim>\<open>KeyError\<close>; the loop stops there with the queue as it was, and the lines
  after it are not looked at.
\<close>

theorem unknown_kitten_aborts:
  "parse_item reFilter item = Some kitten \<Longrightarrow> slaves kitten = None \<Longrightarrow>
   filter_item opts reFilter slaves seenCache item = Inl (KeyError kitten) \<and>
   filter_loop opts reFilter slaves seenCache (item # items) queue = (queue, Some (KeyError kitten))"
  by (simp add: filter_item_def)

theorem unknown_kitten_aborts_witness:
  "parse_item None ''zz,Yes'' = Some ''zz'' \<and> inventory ''zz'' = None
   \<and> filter_loop defaultOptions None inventory Map.empty [''zz,Yes'', ''a,Yes''] []
        = ([], Some (KeyError ''zz''))
   \<and> filter_loop defaultOptions None inventory Map.empty [''a,Yes'', ''zz,Yes'', ''a,Yes''] []
        = ([''a''], Some (KeyError ''zz''))"
  using unknown_kitten_aborts [where reFilter = None and item = "''zz,Yes''" and kitten = "''zz''"
          and slaves = inventory and opts = defaultOptions and seenCache = Map.empty
          and items = "[''a,Yes'']" and queue = "[]"]
  by (simp add: inventory_def defaultOptions_def parse_item_def extract_kitten_def filter_item_def)

section \<open>The class option\<close>

lemma filter_item_class:
  "filter_item (opts\<lparr>class_opt := c\<rparr>) reFilter slaves seenCache item
     = filter_item opts reFilter slaves seenCache item"
  by (auto simp add: filter_item_def split: option.splits)

lemma filter_loop_class:
  "filter_loop (opts\<lparr>class_opt := c\<rparr>) reFilter slaves seenCache items queue
     = filter_loop opts reFilter slaves seenCache items queue"
  by (induction items arbitrary: queue)
     (simp_all add: filter_item_class split: sum.splits option.splits)

lemma checkKitten_class:
  "checkKitten r hostname (opts\<lparr>class_opt := c\<rparr>) = checkKitten r hostname opts"
  by (simp add: checkKitten_def)

text \<open>
  C10. Two runs whose options differ in \<^verbatim>\<open>class\<close> only start the same number of
  workers, queue the same kittens in the same order (or stop with the same error at
  the same line), and every pass of a worker and every run of \<open>checkKitten\<close> does
  the same on the same host.
\<close>

theorem class_option_ignored:
  "main_dispatch re_search percent (opts\<lparr>class_opt := c\<rparr>) slavelist seenCache items
     = main_dispatch re_search percent opts slavelist seenCache items
   \<and> processKittens_pass (opts\<lparr>class_opt := c\<rparr>) r s = processKittens_pass opts r s
   \<and> checkKitten r hostname (opts\<lparr>class_opt := c\<rparr>) = checkKitten r hostname opts"
  by (simp add: main_dispatch_def spawned_workers_def make_reFilter_def filter_loop_class
        checkKitten_class processKittens_pass_def split: option.splits list.splits)

theorem class_option_ignored_witness:
  "main_dispatch (\<lambda>p s. starts_with (tl p) s) (\<lambda>b f. ''^'' @ f)
       (defaultOptions\<lparr>filter_opt := Some ''a'', class_opt := Some ''tegra''\<rparr>)
       [\<lparr> name = ''a'', enabled = True, notes_json = None \<rparr>,
        \<lparr> name = ''b'', enabled = True, notes_json = None \<rparr>] seen_a [''b,Yes'', ''a,No'']
     = main_dispatch (\<lambda>p s. starts_with (tl p) s) (\<lambda>b f. ''^'' @ f)
       (defaultOptions\<lparr>filter_opt := Some ''a''\<rparr>)
       [\<lparr> name = ''a'', enabled = True, notes_json = None \<rparr>,
        \<lparr> name = ''b'', enabled = True, notes_json = None \<rparr>] seen_a [''b,Yes'', ''a,No'']
   \<and> checkKitten not_connected ''tegra-050''
        (defaultOptions\<lparr>filter_opt := Some ''a'', class_opt := Some ''tegra''\<rparr>)
     = checkKitten not_connected ''tegra-050'' (defaultOptions\<lparr>filter_opt := Some ''a''\<rparr>)"
  using class_option_ignored [where opts = "defaultOptions\<lparr>filter_opt := Some ''a''\<rparr>"
          and c = "Some ''tegra''" and re_search = "\<lambda>p s. starts_with (tl p) s"
          and percent = "\<lambda>b f. ''^'' @ f" and seenCache = seen_a
          and items = "[''b,Yes'', ''a,No'']"
          and slavelist = "[\<lparr> name = ''a'', enabled = True, notes_json = None \<rparr>,
                           \<lparr> name = ''b'', enabled = True, notes_json = None \<rparr>]"
          and r = not_connected and hostname = "''tegra-050''"
          and s = "\<lparr> jobs = [], results = [], traces = [] \<rparr>"]
  by simp

section \<open>Time stamps in the cache file\<close>

lemma digit_char_props:
  assumes "d < 10"
  shows "is_digit (digit_char d)" and "digit_val (digit_char d) = d"
    and "\<not> is_space (digit_char d)" and "digit_char d \<noteq> newline"
proof -
  from assms have "d \<in> {0, 1, 2, 3, 4, 5, 6, 7, 8, 9}" by auto
  then show "is_digit (digit_char d)" and "digit_val (digit_char d) = d"
    and "\<not> is_space (digit_char d)" and "digit_char d \<noteq> newline"
    by (auto simp add: digit_char_def is_digit_def digit_val_def is_space_def newline_def)
qed

lemma pad2_props:
  shows "length (pad2 n) = 2" and "list_all is_digit (pad2 n)"
    and "n < 100 \<Longrightarrow> num_of (pad2 n) = n"
proof -
  have a: "n div 10 mod 10 < 10" "n mod 10 < 10" by simp_all
  show "length (pad2 n) = 2" by (simp add: pad2_def)
  show "list_all is_digit (pad2 n)"
    using a by (simp add: pad2_def digit_char_props)
  show "num_of (pad2 n) = n" if "n < 100"
    using a that by (simp add: pad2_def num_of_def digit_char_props)
qed

lemma four_digits:
  fixes n :: nat
  assumes "n < 10000"
  shows "10 * (10 * (10 * (n div 1000 mod 10) + n div 100 mod 10) + n div 10 mod 10) + n mod 10 = n"
proof -
  define m1 where "m1 = n div 10"
  define m2 where "m2 = m1 div 10"
  define m3 where "m3 = m2 div 10"
  have e2: "n div 100 = m2" and e3: "n div 1000 = m3"
    by (simp_all add: m1_def m2_def m3_def div_mult2_eq [symmetric])
  have "m3 < 10" using assms unfolding e3 [symmetric] by simp
  then have s3: "m3 mod 10 = m3" by simp
  have s2: "10 * m3 + m2 mod 10 = m2" unfolding m3_def by (rule mult_div_mod_eq)
  have s1: "10 * m2 + m1 mod 10 = m1" unfolding m2_def by (rule mult_div_mod_eq)
  have s0: "10 * m1 + n mod 10 = n" unfolding m1_def by (rule mult_div_mod_eq)
  show ?thesis
    unfolding e2 e3 m1_def [symmetric] s3 s2 s1 s0 ..
qed

lemma pad4_props:
  shows "length (pad4 n) = 4" and "list_all is_digit (pad4 n)"
    and "n < 10000 \<Longrightarrow> num_of (pad4 n) = n"
proof -
  have a: "n div 1000 mod 10 < 10" "n div 100 mod 10 < 10" "n div 10 mod 10 < 10" "n mod 10 < 10"
    by simp_all
  show "length (pad4 n) = 4" by (simp add: pad4_def)
  show "list_all is_digit (pad4 n)"
    using a by (simp add: pad4_def digit_char_props)
  show "num_of (pad4 n) = n" if "n < 10000"
  proof -
    have "num_of (pad4 n) = 10 * (10 * (10 * (n div 1000 mod 10) + n div 100 mod 10) + n div 10 mod 10) + n mod 10"
      using a by (simp add: pad4_def num_of_def digit_char_props)
    also have "\<dots> = n" using that by (rule four_digits)
    finally show ?thesis .
  qed
qed

lemma takeWhile_digits:
  "list_all is_digit ds \<Longrightarrow> \<not> is_digit c \<Longrightarrow> takeWhile is_digit (ds @ c # rest) = ds"
  by (induction ds) simp_all

lemma dropWhile_digits:
  "list_all is_digit ds \<Longrightarrow> \<not> is_digit c \<Longrightarrow> dropWhile is_digit (ds @ c # rest) = c # rest"
  by (induction ds) simp_all

lemma number_pad2:
  "lo \<le> n \<Longrightarrow> n \<le> hi \<Longrightarrow> n < 100 \<Longrightarrow> number lo hi (pad2 n) = Some n"
  by (simp add: number_def pad2_props)

lemma not_digit_seps:
  "\<not> is_digit CHR ''-''" "\<not> is_digit CHR ''T''" "\<not> is_digit CHR '':''" "\<not> is_digit CHR '' ''"
  by (simp_all add: is_digit_def)

lemma day_field_pad2:
  assumes "1 \<le> n" "n \<le> 31"
  shows "day_field (pad2 n @ CHR ''T'' # rest) = Some (n, CHR ''T'' # rest)"
proof -
  have d: "is_digit (digit_char (n div 10 mod 10))"
    by (rule digit_char_props) simp
  then have ns: "digit_char (n div 10 mod 10) \<noteq> CHR '' ''"
    using not_digit_seps(4) by auto
  have t1: "take 1 (pad2 n @ CHR ''T'' # rest) \<noteq> '' ''"
    using ns by (simp add: pad2_def)
  have tw: "takeWhile is_digit (pad2 n @ CHR ''T'' # rest) = pad2 n"
    and dw: "dropWhile is_digit (pad2 n @ CHR ''T'' # rest) = CHR ''T'' # rest"
    by (simp_all add: takeWhile_digits dropWhile_digits pad2_props not_digit_seps)
  have nb: "number 1 31 (pad2 n) = Some n"
    using assms by (simp add: number_pad2)
  show ?thesis
    unfolding day_field_def tw dw nb using t1 by simp
qed

lemma strptime_fields_isoformat:
  assumes "valid_datetime dt"
  shows "strptime_fields (isoformat dt)
           = Some (year dt, month dt, day dt, hour dt, minute dt, second dt)"
proof -
  let ?r0 = "pad2 (month dt) @ CHR ''-'' # pad2 (day dt) @ CHR ''T'' # pad2 (hour dt) @ CHR '':''
             # pad2 (minute dt) @ CHR '':'' # pad2 (second dt)"
  let ?r2 = "pad2 (day dt) @ CHR ''T'' # pad2 (hour dt) @ CHR '':''
             # pad2 (minute dt) @ CHR '':'' # pad2 (second dt)"
  let ?r4 = "pad2 (hour dt) @ CHR '':'' # pad2 (minute dt) @ CHR '':'' # pad2 (second dt)"
  let ?r5 = "pad2 (minute dt) @ CHR '':'' # pad2 (second dt)"
  from assms have rng: "year dt < 10000" "1 \<le> month dt" "month dt \<le> 12" "1 \<le> day dt"
    "day dt \<le> 31" "hour dt \<le> 23" "minute dt \<le> 59" "second dt \<le> 61"
    by (auto simp add: valid_datetime_def days_in_month_def split: if_splits)
  have iso: "isoformat dt = pad4 (year dt) @ CHR ''-'' # ?r0"
    by (simp add: isoformat_def)
  have t4: "take 4 (isoformat dt) = pad4 (year dt)" and d4: "drop 4 (isoformat dt) = CHR ''-'' # ?r0"
    by (simp_all add: iso pad4_props)
  have m: "number 1 12 (takeWhile is_digit ?r0) = Some (month dt)"
    and mr: "dropWhile is_digit ?r0 = CHR ''-'' # ?r2"
    using rng by (simp_all add: takeWhile_digits dropWhile_digits pad2_props not_digit_seps number_pad2)
  have d: "day_field ?r2 = Some (day dt, CHR ''T'' # ?r4)"
    using rng by (simp add: day_field_pad2)
  have h: "number 0 23 (takeWhile is_digit ?r4) = Some (hour dt)"
    and hr: "dropWhile is_digit ?r4 = CHR '':'' # ?r5"
    using rng by (simp_all add: takeWhile_digits dropWhile_digits pad2_props not_digit_seps number_pad2)
  have mi: "number 0 59 (takeWhile is_digit ?r5) = Some (minute dt)"
    and mir: "dropWhile is_digit ?r5 = CHR '':'' # pad2 (second dt)"
    using rng by (simp_all add: takeWhile_digits dropWhile_digits pad2_props not_digit_seps number_pad2)
  have s: "number 0 61 (pad2 (second dt)) = Some (second dt)"
    using rng by (simp add: number_pad2)
  show ?thesis
    unfolding strptime_fields_def t4 d4
    using rng(1) by (simp add: pad4_props expect_def m mr d h hr mi mir s del: One_nat_def)
qed

lemma strptime_isoformat:
  assumes "valid_datetime dt" and "microsecond dt = 0"
  shows "strptime (isoformat dt) = Inr dt"
  using assms by (simp add: strptime_def strptime_fields_isoformat valid_datetime_def)


lemma isoformat_chars:
  "list_all (\<lambda>c. \<not> is_space c \<and> c \<noteq> newline) (isoformat dt)"
proof -
  let ?ok = "\<lambda>c. \<not> is_space c \<and> c \<noteq> newline"
  have p2: "list_all ?ok (pad2 n)" for n
  proof -
    have "n div 10 mod 10 < 10" "n mod 10 < 10" by simp_all
    then show ?thesis by (simp add: pad2_def digit_char_props)
  qed
  have p4: "list_all ?ok (pad4 n)" for n
  proof -
    have "n div 1000 mod 10 < 10" "n div 100 mod 10 < 10" "n div 10 mod 10 < 10" "n mod 10 < 10"
      by simp_all
    then show ?thesis by (simp add: pad4_def digit_char_props)
  qed
  have sep: "?ok CHR ''-''" "?ok CHR ''T''" "?ok CHR '':''"
    by (simp_all add: is_space_def newline_def)
  show ?thesis
    unfolding isoformat_def list_all_append using p2 p4 sep by simp
qed

lemma isoformat_no_space: "CHR '' '' \<notin> set (isoformat dt)"
  using isoformat_chars [of dt] by (auto simp add: list_all_iff is_space_def)

lemma isoformat_not_Nil: "isoformat dt \<noteq> []"
  by (simp add: isoformat_def)

lemma dropWhile_none: "list_all (\<lambda>c. \<not> P c) xs \<Longrightarrow> dropWhile P xs = xs"
  by (cases xs) simp_all

lemma strip_line:
  assumes "list_all (\<lambda>c. \<not> is_space c \<and> c \<noteq> newline) s"
  shows "strip (s @ [newline]) = s"
proof (cases s)
  case Nil
  then show ?thesis by (simp add: strip_def is_space_def newline_def)
next
  case (Cons x xs)
  from assms have ns: "list_all (\<lambda>c. \<not> is_space c) s"
    by (simp add: list_all_iff)
  with Cons have a: "dropWhile is_space (s @ [newline]) = s @ [newline]"
    by simp
  have b: "is_space newline" by (simp add: is_space_def newline_def)
  from ns have "list_all (\<lambda>c. \<not> is_space c) (rev s)" by (simp add: list_all_iff)
  then have c: "dropWhile is_space (rev s) = rev s" by (rule dropWhile_none)
  show ?thesis unfolding strip_def a by (simp add: b c)
qed

lemma split_on_no_sep: "sep \<notin> set s \<Longrightarrow> split_on sep s = [s]"
  by (induction s) auto

lemma split_on_append:
  "sep \<notin> set k \<Longrightarrow> split_on sep (k @ sep # t) = k # split_on sep t"
  by (induction k) auto


lemma datetime_sub_seconds:
  "days (datetime_sub a b) * 86400 + seconds (datetime_sub a b) = elapsed_us a b div 1000000"
proof -
  define X where "X = (toordinal a - toordinal b) * 86400
     + ((int (second a) + int (minute a) * 60 + int (hour a) * 3600)
          - (int (second b) + int (minute b) * 60 + int (hour b) * 3600))"
  define u where "u = int (microsecond a) - int (microsecond b)"
  have el: "elapsed_us a b = u + X * 1000000"
    by (simp add: elapsed_us_def to_us_def X_def u_def algebra_simps)
  have "elapsed_us a b div 1000000 = u div 1000000 + X"
    unfolding el by simp
  moreover have "days (datetime_sub a b) * 86400 + seconds (datetime_sub a b) = X + u div 1000000"
    by (simp add: datetime_sub_def timedelta_new_def Let_def X_def u_def algebra_simps)
  ultimately show ?thesis by simp
qed

lemma fresh_iff: "(x div 1000000 \<le> (3600::int)) = (x < 3601 * 1000000)"
  by linarith


lemma loadCache_item_parsed:
  assumes "CHR '' '' \<notin> set kitten" and "CHR '' '' \<notin> set s" and "strptime (strip s) = Inr ts"
  shows "loadCache_item now (kitten @ '' '' @ s) result =
           Inr (if elapsed_us now ts < 3601 * 1000000 then result(kitten \<mapsto> ts) else result)"
proof -
  have sp: "split_on CHR '' '' (kitten @ '' '' @ s) = [kitten, s]"
    using assms(1,2) by (simp add: split_on_append split_on_no_sep)
  show ?thesis
    unfolding loadCache_item_def sp
    by (simp add: assms(3) Let_def datetime_sub_seconds fresh_iff)
qed

lemma loadCache_item_line:
  assumes "CHR '' '' \<notin> set kitten" and "valid_datetime ts" and "microsecond ts = 0"
  shows "loadCache_item now (cache_line kitten ts) result =
           Inr (if elapsed_us now ts < 3601 * 1000000 then result(kitten \<mapsto> ts) else result)"
proof -
  have "strptime (strip (isoformat ts @ [newline])) = Inr ts"
    using assms(2,3) by (simp add: strip_line isoformat_chars strptime_isoformat)
  moreover have "CHR '' '' \<notin> set (isoformat ts @ [newline])"
    using isoformat_no_space [of ts] by (simp add: newline_def)
  ultimately show ?thesis
    unfolding cache_line_def by (rule loadCache_item_parsed [OF assms(1), rotated])
qed

lemma half_past_elapsed: "elapsed_us half_past noon = 3600500000"
  by (simp add: elapsed_us_def to_us_def toordinal_def half_past_def noon_def)

lemma noon_valid: "valid_datetime noon" "microsecond noon = 0"
  by (simp_all add: valid_datetime_def noon_def days_in_month_def)

lemma noon_iso: "isoformat noon = ''2012-03-01T12:00:00''"
  by (simp add: isoformat_def noon_def pad2_def pad4_def digit_char_def)

lemma noon_line: "strptime (strip (''2012-03-01T12:00:00'' @ [newline])) = Inr noon"
  using strip_line [OF isoformat_chars, of noon] strptime_isoformat [OF noon_valid]
  by (simp add: noon_iso)

text \<open>
  C4, as the code has it. The line of an entry, a kitten and a time stamp with one
  space between them, is kept if and only if the entry is less than 3601 seconds
  old: the age is counted in whole seconds, the fraction of a second that the clock
  shows is dropped, and the whole seconds are compared with 3600. An entry that is
  exactly 3600 seconds old is kept, one that is 3601 seconds old is not.
\<close>

theorem loadCache_item_retains:
  assumes "CHR '' '' \<notin> set kitten" and "CHR '' '' \<notin> set s" and "strptime (strip s) = Inr ts"
  shows "loadCache_item now (kitten @ '' '' @ s) result =
           Inr (if elapsed_us now ts < 3601 * 1000000 then result(kitten \<mapsto> ts) else result)"
  using assms by (rule loadCache_item_parsed)

theorem loadCache_item_retains_witness:
  "loadCache_item (noon\<lparr>hour := 13\<rparr>) (''tegra-050 2012-03-01T12:00:00'' @ [newline]) Map.empty
     = Inr [''tegra-050'' \<mapsto> noon]
   \<and> loadCache_item (noon\<lparr>hour := 13, second := 1\<rparr>)
        (''tegra-050 2012-03-01T12:00:00'' @ [newline]) Map.empty = Inr Map.empty"
proof -
  have k: "CHR '' '' \<notin> set ''tegra-050''"
    and s: "CHR '' '' \<notin> set (''2012-03-01T12:00:00'' @ [newline])"
    by (simp_all add: newline_def)
  have e1: "elapsed_us (noon\<lparr>hour := 13\<rparr>) noon = 3600000000"
    and e2: "elapsed_us (noon\<lparr>hour := 13, second := 1\<rparr>) noon = 3601000000"
    by (simp_all add: elapsed_us_def to_us_def toordinal_def noon_def)
  from loadCache_item_retains [OF k s noon_line, of "noon\<lparr>hour := 13\<rparr>" Map.empty]
       loadCache_item_retains [OF k s noon_line, of "noon\<lparr>hour := 13, second := 1\<rparr>" Map.empty]
  show ?thesis unfolding e1 e2 by simp
qed

text \<open>
  C4, as the claim has it, fails for an entry that is 3600.5 seconds old: it is older
  than 3600 seconds and it is kept.
\<close>

theorem stale_entry_retained:
  "3600 * 1000000 < elapsed_us half_past noon
   \<and> loadCache_item half_past (''tegra-050 2012-03-01T12:00:00'' @ [newline]) Map.empty
       = Inr [''tegra-050'' \<mapsto> noon]"
proof -
  have l: "cache_line ''tegra-050'' noon = ''tegra-050 2012-03-01T12:00:00'' @ [newline]"
    by (simp add: cache_line_def noon_iso)
  have k: "CHR '' '' \<notin> set ''tegra-050''" by simp
  have "loadCache_item half_past (cache_line ''tegra-050'' noon) Map.empty
          = Inr [''tegra-050'' \<mapsto> noon]"
    unfolding loadCache_item_line [OF k noon_valid] half_past_elapsed by simp
  then show ?thesis unfolding l using half_past_elapsed by simp
qed

section \<open>Writing the cache and reading it back\<close>













end
